theory Spec2Isabelle
  imports Complex_Main "HOL-Library.Sublist"
begin

section \<open>scipydirect: the Python wrapper around the DIRECT routine\<close>

text \<open>
  The repository is one Python 2 module, \<^verbatim>\<open>scipydirect/__init__.py\<close>. It holds two
  message tables, the class \<^verbatim>\<open>OptimizeResult\<close> (a dict with attribute access) and the
  function \<^verbatim>\<open>minimize\<close>, which prepares the arguments of the compiled routine
  \<^verbatim>\<open>direct\<close>, calls it, and turns its answer into an exception or a result object.

  The compiled routine is not part of the Python source, so it is a parameter of the
  model. The wrapper does no arithmetic on floating point numbers, so a float is
  modelled by the real number it denotes; the one place where a number changes is the
  conversion of the bounds to an array, which rounds integers to floats there.
\<close>

subsection \<open>Exceptions and values\<close>

text \<open>The exceptions the module can raise, each with the argument it is raised with.\<close>

datatype exn =
    Exception string
  | IndexError
  | ValueError
  | KeyError string
  | AttributeError string

text \<open>
  A numpy array of floats, as far as the wrapper builds one: zero-dimensional (what
  \<^verbatim>\<open>np.zeros(None)\<close> is in the numpy releases for Python 2) or one-dimensional.
\<close>

datatype ndarray = Array0 real | Array1 "real list"

text \<open>The objects stored in the result of \<^verbatim>\<open>minimize\<close>.\<close>

datatype pyobj = PyArray ndarray | PyFloat real | PyInt int

text \<open>A number as the caller writes it in the bounds: a Python integer or a float.\<close>

datatype number = IntNum int | FloatNum real

subsection \<open>The message tables\<close>

text \<open>
  Adjacent string literals are one literal in Python. The tuple \<^verbatim>\<open>ERROR_MESSAGES\<close> has
  no comma after \<^verbatim>\<open>'maxf is too large'\<close>, so its last two lines are a single element
  and the tuple has five elements.
\<close>

definition ERROR_MESSAGES :: "string list" where
  "ERROR_MESSAGES =
    [''Maximum number of levels has been reached.'',
     ''An error occured while the function was sampled'',
     ''There was an error in the creation of the sample points'',
     ''Initialization failed'',
     ''maxf is too large'' @ ''u[i] < l[i] for some i'']"

definition SUCCESS_MESSAGES :: "string list" where
  "SUCCESS_MESSAGES =
    [''Number of function evaluations done is larger then maxf'',
     ''Number of iterations is equal to maxT'',
     ''The best function value found is within fglper of the (known) global optimum'',
     ''The volume of the hyperrectangle with best function value found is below volper'',
     ''The volume of the hyperrectangle with best function value found is smaller then volper'']"

text \<open>
  Subscripting a tuple: an index below zero counts from the end, and an index outside
  the tuple raises \<^verbatim>\<open>IndexError\<close>.
\<close>

definition tuple_getitem :: "'a list \<Rightarrow> int \<Rightarrow> exn + 'a" where
  "tuple_getitem t i =
     (if 0 \<le> i \<and> i < int (length t) then Inr (t ! nat i)
      else if i < 0 \<and> - int (length t) \<le> i then Inr (t ! nat (int (length t) + i))
      else Inl IndexError)"

subsection \<open>The parameters of \<^verbatim>\<open>minimize\<close>\<close>

text \<open>
  Every parameter of \<^verbatim>\<open>minimize\<close> but the objective has a default, so a call is a
  record of keyword values: \<^verbatim>\<open>minimize(f, nvar=2, maxf=500)\<close> is
  \<open>minimize direct f (defaults\<lparr>nvar := Some 2, maxf := 500\<rparr>)\<close>.
\<close>

record 'a minimize_params =
  bounds :: "(number \<times> number) list option"
  nvar :: "int option"
  args :: "'a list"
  disp :: bool
  eps :: real
  maxf :: int
  maxT :: int
  algmethod :: int
  fglobal :: real
  fglper :: real
  volper :: real
  sigmaper :: real
  logfilename :: string

definition defaults :: "'a minimize_params" where
  "defaults =
     \<lparr>bounds = None, nvar = None, args = [], disp = False,
      eps = 1 / 10 ^ 4,
      maxf = 20000,
      maxT = 6000,
      algmethod = 0,
      fglobal = - (10 ^ 100),
      fglper = 1 / 100,
      volper = - 1,
      sigmaper = - 1,
      logfilename = ''DIRresults.txt''\<rparr>"

subsection \<open>The bounds\<close>

text \<open>
  \<^verbatim>\<open>np.zeros(n)\<close> and \<^verbatim>\<open>np.ones(n)\<close> on a 64-bit platform: \<^verbatim>\<open>None\<close> stands for the
  empty shape; a negative length raises \<^verbatim>\<open>ValueError\<close>, and so does a length whose
  eight-byte elements do not fit a signed 64-bit byte count, that is a length of
  \<open>2 ^ 60\<close> or more. Below that numpy accepts the size; running out of memory is
  outside the model.
\<close>

definition np_full :: "real \<Rightarrow> int option \<Rightarrow> exn + ndarray" where
  "np_full c shape =
     (case shape of
        None \<Rightarrow> Inr (Array0 c)
      | Some n \<Rightarrow>
          if n < 0 \<or> 2 ^ 60 \<le> n then Inl ValueError
          else Inr (Array1 (replicate (nat n) c)))"

text \<open>
  \<^verbatim>\<open>np.asarray(bounds)\<close> for a list of pairs of numbers, in the numpy releases for
  Python 2. Every number gets the type of a scalar: a float is a \<^verbatim>\<open>float64\<close>, an
  integer is an \<^verbatim>\<open>int64\<close> if it fits, else a \<^verbatim>\<open>uint64\<close> if it fits, else a Python
  object. The array has the common type of all its numbers.
\<close>

datatype dtype = Float64 | Int64 | UInt64 | Object

fun scalar_dtype :: "number \<Rightarrow> dtype" where
  "scalar_dtype (FloatNum x) = Float64"
| "scalar_dtype (IntNum i) =
     (if - (2 ^ 63) \<le> i \<and> i < 2 ^ 63 then Int64
      else if 2 ^ 63 \<le> i \<and> i < 2 ^ 64 then UInt64
      else Object)"

text \<open>
  The common type: an object anywhere makes an array of objects; otherwise a float, or
  signed and unsigned integers together, make an array of \<^verbatim>\<open>float64\<close>.
\<close>

definition result_dtype :: "dtype list \<Rightarrow> dtype" where
  "result_dtype ds =
     (if Object \<in> set ds then Object
      else if Float64 \<in> set ds \<or> (Int64 \<in> set ds \<and> UInt64 \<in> set ds) then Float64
      else if UInt64 \<in> set ds then UInt64
      else Int64)"

text \<open>The number of binary digits of a positive integer.\<close>

function bit_length :: "int \<Rightarrow> nat" where
  "bit_length a = (if a \<le> 0 then 0 else Suc (bit_length (a div 2)))"
  by pat_completeness auto
termination
  by (relation "measure nat") auto

declare bit_length.simps [simp del]

text \<open>
  The \<^verbatim>\<open>float64\<close> nearest to an integer, with ties to the even significand. Below
  \<open>2 ^ 53\<close> in magnitude every integer is a \<^verbatim>\<open>float64\<close>; above, the digits beyond the
  53rd are rounded away, and the result is an integer again. (Only integers below
  \<open>2 ^ 64\<close> in magnitude are converted, so the conversion cannot overflow.)
\<close>

definition nearest_float64 :: "int \<Rightarrow> int" where
  "nearest_float64 i =
     (let a = \<bar>i\<bar>
      in if a < 2 ^ 53 then i
         else
           (let e = bit_length a - 53;
                q = a div 2 ^ e;
                r = a mod 2 ^ e;
                q' = (if 2 ^ e < 2 * r \<or> (2 * r = 2 ^ e \<and> odd q) then q + 1 else q)
            in sgn i * (q' * 2 ^ e)))"

text \<open>
  The value a number has in an array of a given type: integers are rounded in an array
  of \<^verbatim>\<open>float64\<close> and kept as they are in the integer and object arrays.
\<close>

definition value_of :: "number \<Rightarrow> real" where
  "value_of v = (case v of IntNum i \<Rightarrow> real_of_int i | FloatNum x \<Rightarrow> x)"

definition coerce :: "dtype \<Rightarrow> number \<Rightarrow> real" where
  "coerce dt v =
     (case v of
        FloatNum x \<Rightarrow> x
      | IntNum i \<Rightarrow> if dt = Float64 then real_of_int (nearest_float64 i) else real_of_int i)"

text \<open>
  The array as the list of its rows. The array of a list of \<open>n > 0\<close> pairs has shape
  \<open>(n, 2)\<close>; the array of the empty list has shape \<open>(0,)\<close> and no rows.
\<close>

definition np_asarray :: "(number \<times> number) list \<Rightarrow> (real \<times> real) list" where
  "np_asarray bs =
     (let dt = result_dtype (concat (map (\<lambda>(a, b). [scalar_dtype a, scalar_dtype b]) bs))
      in map (\<lambda>(a, b). (coerce dt a, coerce dt b)) bs)"

text \<open>
  The subscript \<^verbatim>\<open>[:, k]\<close>: column \<open>k\<close> of an array of shape \<open>(n, 2)\<close>. On the array of
  shape \<open>(0,)\<close> a subscript with two indices raises \<^verbatim>\<open>IndexError\<close>.
\<close>

definition column :: "((real \<times> real) \<Rightarrow> real) \<Rightarrow> (real \<times> real) list \<Rightarrow> exn + ndarray" where
  "column sel rows = (if rows = [] then Inl IndexError else Inr (Array1 (map sel rows)))"

text \<open>
  A number that the conversion to \<^verbatim>\<open>float64\<close> leaves as it is: every float, and every
  integer that is a \<^verbatim>\<open>float64\<close> value.
\<close>

definition exact_float64 :: "number \<Rightarrow> bool" where
  "exact_float64 v = (case v of FloatNum x \<Rightarrow> True | IntNum i \<Rightarrow> nearest_float64 i = i)"

text \<open>Lines 206 to 212: the arrays \<^verbatim>\<open>l\<close> and \<^verbatim>\<open>u\<close>.\<close>

definition bounds_arrays ::
  "(number \<times> number) list option \<Rightarrow> int option \<Rightarrow> exn + (ndarray \<times> ndarray)" where
  "bounds_arrays bnds nv =
     (case bnds of
        None \<Rightarrow>
          (case np_full 0 nv of
             Inl e \<Rightarrow> Inl e
           | Inr l \<Rightarrow> (case np_full 1 nv of Inl e \<Rightarrow> Inl e | Inr u \<Rightarrow> Inr (l, u)))
      | Some bs \<Rightarrow>
          (let rows = np_asarray bs
           in case column fst rows of
                Inl e \<Rightarrow> Inl e
              | Inr l \<Rightarrow> (case column snd rows of Inl e \<Rightarrow> Inl e | Inr u \<Rightarrow> Inr (l, u))))"

subsection \<open>The objective handed to the routine\<close>

text \<open>
  The routine calls its objective with eight arguments and expects a value and a flag.
  The user's function \<open>func\<close> takes the point and the extra arguments
  (\<^verbatim>\<open>func(x, *args)\<close> is \<open>func x args\<close>); what it returns is of any type \<open>'r\<close>.
\<close>

type_synonym 'r objective =
  "ndarray \<Rightarrow> int list \<Rightarrow> real list \<Rightarrow> nat list list \<Rightarrow> int \<Rightarrow> int \<Rightarrow> int \<Rightarrow> int \<Rightarrow> 'r \<times> int"

definition objective_wrap :: "(ndarray \<Rightarrow> 'a list \<Rightarrow> 'r) \<Rightarrow> 'a list \<Rightarrow> 'r objective" where
  "objective_wrap func as x iidata ddata cdata n iisize idsize icsize = (func x as, 0)"

subsection \<open>Calling the routine\<close>

text \<open>
  The compiled routine: fifteen positional arguments, and either an exception (its own,
  or one raised by the objective) or the triple \<^verbatim>\<open>(x, fun, ierror)\<close>.
\<close>

type_synonym 'r direct_routine =
  "'r objective \<Rightarrow> real \<Rightarrow> int \<Rightarrow> int \<Rightarrow> ndarray \<Rightarrow> ndarray \<Rightarrow> int \<Rightarrow> string \<Rightarrow>
   real \<Rightarrow> real \<Rightarrow> real \<Rightarrow> real \<Rightarrow> int list \<Rightarrow> real list \<Rightarrow> nat list list \<Rightarrow>
   exn + (ndarray \<times> real \<times> int)"

text \<open>
  Lines 225 to 248: the three dummy arrays (\<^verbatim>\<open>np.ones\<close> of length 0, and of shape
  \<open>[0, 40]\<close>, a list of no rows) and the call.
\<close>

definition call_direct ::
  "'r direct_routine \<Rightarrow> (ndarray \<Rightarrow> 'a list \<Rightarrow> 'r) \<Rightarrow> 'a minimize_params \<Rightarrow>
   ndarray \<Rightarrow> ndarray \<Rightarrow> exn + (ndarray \<times> real \<times> int)" where
  "call_direct direct func p l u =
     (let iidata = replicate 0 1;
          ddata = replicate 0 1;
          cdata = replicate 0 (replicate 40 1)
      in direct (objective_wrap func (args p)) (eps p) (maxf p) (maxT p) l u (algmethod p)
           (logfilename p) (fglobal p) (fglper p) (volper p) (sigmaper p)
           iidata ddata cdata)"

subsection \<open>The result object\<close>

text \<open>
  \<^verbatim>\<open>OptimizeResult\<close> is a dict; the keys that matter here are strings.
\<close>

type_synonym 'v OptimizeResult = "string \<rightharpoonup> 'v"

text \<open>The three item operations of the built-in dict; a missing key raises \<^verbatim>\<open>KeyError\<close>.\<close>

definition dict_getitem :: "'v OptimizeResult \<Rightarrow> string \<Rightarrow> exn + 'v" where
  "dict_getitem r k = (case r k of None \<Rightarrow> Inl (KeyError k) | Some v \<Rightarrow> Inr v)"

definition dict_setitem :: "'v OptimizeResult \<Rightarrow> string \<Rightarrow> 'v \<Rightarrow> 'v OptimizeResult" where
  "dict_setitem r k v = r(k \<mapsto> v)"

definition dict_delitem :: "'v OptimizeResult \<Rightarrow> string \<Rightarrow> exn + 'v OptimizeResult" where
  "dict_delitem r k = (case r k of None \<Rightarrow> Inl (KeyError k) | Some v \<Rightarrow> Inr (r(k := None)))"

text \<open>
  The three methods of the class body (lines 89 to 96): \<^verbatim>\<open>__getattr__\<close> turns the
  \<^verbatim>\<open>KeyError\<close> of the item lookup into an \<^verbatim>\<open>AttributeError\<close>; the other two are the
  dict's own item methods under a second name.
\<close>

definition OptimizeResult_getattr :: "'v OptimizeResult \<Rightarrow> string \<Rightarrow> exn + 'v" where
  "OptimizeResult_getattr self name =
     (case dict_getitem self name of
        Inr v \<Rightarrow> Inr v
      | Inl (KeyError k) \<Rightarrow> Inl (AttributeError name)
      | Inl e \<Rightarrow> Inl e)"

definition OptimizeResult_setattr :: "'v OptimizeResult \<Rightarrow> string \<Rightarrow> 'v \<Rightarrow> 'v OptimizeResult" where
  "OptimizeResult_setattr = dict_setitem"

definition OptimizeResult_delattr :: "'v OptimizeResult \<Rightarrow> string \<Rightarrow> exn + 'v OptimizeResult" where
  "OptimizeResult_delattr = dict_delitem"

text \<open>
  The names the class itself answers. Python calls \<^verbatim>\<open>__getattr__\<close> only after the
  ordinary lookup of the name has failed, and the ordinary lookup finds every name of
  the class and of its bases: the four methods of the class body with its docstring, the
  entries every class gets, and the attributes of the built-in dict of Python 2.7. The
  module relies on this itself: \<^verbatim>\<open>__repr__\<close> calls \<^verbatim>\<open>self.keys()\<close> and
  \<^verbatim>\<open>self.items()\<close> and reads \<^verbatim>\<open>self.__class__\<close>.
\<close>

definition class_body :: "string list" where
  "class_body = [''__doc__'', ''__getattr__'', ''__setattr__'', ''__delattr__'', ''__repr__'']"

definition class_extras :: "string list" where
  "class_extras = [''__dict__'', ''__module__'', ''__weakref__'']"

definition dict_attributes :: "string list" where
  "dict_attributes =
     [''__class__'', ''__cmp__'', ''__contains__'', ''__delattr__'', ''__delitem__'',
      ''__doc__'', ''__eq__'', ''__format__'', ''__ge__'', ''__getattribute__'',
      ''__getitem__'', ''__gt__'', ''__hash__'', ''__init__'', ''__iter__'', ''__le__'',
      ''__len__'', ''__lt__'', ''__ne__'', ''__new__'', ''__reduce__'', ''__reduce_ex__'',
      ''__repr__'', ''__setattr__'', ''__setitem__'', ''__sizeof__'', ''__str__'',
      ''__subclasshook__'', ''clear'', ''copy'', ''fromkeys'', ''get'', ''has_key'',
      ''items'', ''iteritems'', ''iterkeys'', ''itervalues'', ''keys'', ''pop'',
      ''popitem'', ''setdefault'', ''update'', ''values'', ''viewitems'', ''viewkeys'',
      ''viewvalues'']"

definition class_names :: "string list" where
  "class_names = class_body @ class_extras @ dict_attributes"

text \<open>
  What an attribute read gives: an entry of the dict, or the member of the class of that
  name (a bound method, the docstring, the class).
\<close>

datatype 'v attribute = Entry 'v | ClassMember string

text \<open>
  The three attribute statements on an instance \<open>r\<close>. Reading \<^verbatim>\<open>r.name\<close> looks the name
  up in the class first and falls back to \<^verbatim>\<open>__getattr__\<close>; the instance has no
  attributes of its own, since assignment never stores one. Assigning and deleting call
  the class's \<^verbatim>\<open>__setattr__\<close> and \<^verbatim>\<open>__delattr__\<close> for every name.
\<close>

definition attr_read :: "'v OptimizeResult \<Rightarrow> string \<Rightarrow> exn + 'v attribute" where
  "attr_read r name =
     (if name \<in> set class_names then Inr (ClassMember name)
      else (case OptimizeResult_getattr r name of Inl e \<Rightarrow> Inl e | Inr v \<Rightarrow> Inr (Entry v)))"

definition attr_assign :: "'v OptimizeResult \<Rightarrow> string \<Rightarrow> 'v \<Rightarrow> 'v OptimizeResult" where
  "attr_assign r name v = OptimizeResult_setattr r name v"

definition attr_delete :: "'v OptimizeResult \<Rightarrow> string \<Rightarrow> exn + 'v OptimizeResult" where
  "attr_delete r name = OptimizeResult_delattr r name"

text \<open>
  Lines 250 to 254. A negative \<^verbatim>\<open>ierror\<close> is printed and then an exception is raised
  with the message at index \<^verbatim>\<open>abs(ierror) - 1\<close>; otherwise the result has the three
  keyword entries of the constructor call. The first component is what was printed.
\<close>

definition minimize_return ::
  "ndarray \<times> real \<times> int \<Rightarrow> int list \<times> (exn + pyobj OptimizeResult)" where
  "minimize_return t =
     (case t of (x, fun_, ierror) \<Rightarrow>
        if ierror < 0 then
          ([ierror],
           (case tuple_getitem ERROR_MESSAGES (\<bar>ierror\<bar> - 1) of
              Inl e \<Rightarrow> Inl e
            | Inr m \<Rightarrow> Inl (Exception m)))
        else
          ([], Inr [''x'' \<mapsto> PyArray x, ''fun'' \<mapsto> PyFloat fun_, ''status'' \<mapsto> PyInt ierror]))"

subsection \<open>\<^verbatim>\<open>minimize\<close>\<close>

definition minimize ::
  "'r direct_routine \<Rightarrow> (ndarray \<Rightarrow> 'a list \<Rightarrow> 'r) \<Rightarrow> 'a minimize_params \<Rightarrow>
   int list \<times> (exn + pyobj OptimizeResult)" where
  "minimize direct func p =
     (case bounds_arrays (bounds p) (nvar p) of
        Inl e \<Rightarrow> ([], Inl e)
      | Inr (l, u) \<Rightarrow>
          (case call_direct direct func p l u of
             Inl e \<Rightarrow> ([], Inl e)
           | Inr t \<Rightarrow> minimize_return t))"

subsection \<open>Sample inputs\<close>

text \<open>
  A routine that returns a given triple whatever it is called with, and an objective as
  the docstring of \<^verbatim>\<open>minimize\<close> describes it: it returns the value and the flag 1,
  for a point where the function is not defined.
\<close>

definition direct_returning :: "ndarray \<times> real \<times> int \<Rightarrow> 'r direct_routine" where
  "direct_returning t fcn e mf mt l u am lf fg fp vp sp ii dd cd = Inr t"

definition flagging_objective :: "ndarray \<Rightarrow> real list \<Rightarrow> real \<times> int" where
  "flagging_objective x as = (2, 1)"

text \<open>
  A routine that evaluates its objective once, at the lower corner of the box, and
  returns that point and value with status 1; and an objective whose value is the sum
  of its extra arguments.
\<close>

definition direct_at_lower :: "real direct_routine" where
  "direct_at_lower fcn e mf mt l u am lf fg fp vp sp ii dd cd =
     Inr (l, fst (fcn l ii dd cd 1 0 0 0), 1)"

definition sum_of_args :: "ndarray \<Rightarrow> real list \<Rightarrow> real" where
  "sum_of_args x as = sum_list as"

section \<open>Properties\<close>

subsection \<open>The outcome of \<^verbatim>\<open>minimize\<close>\<close>

lemma minimize_return_negative:
  "ierror < 0 \<Longrightarrow> \<exists>e. minimize_return (x, f, ierror) = ([ierror], Inl e)"
  by (cases "tuple_getitem ERROR_MESSAGES (\<bar>ierror\<bar> - 1)") (simp_all add: minimize_return_def)

lemma minimize_return_nonnegative:
  "0 \<le> ierror \<Longrightarrow> minimize_return (x, f, ierror) =
     ([], Inr [''x'' \<mapsto> PyArray x, ''fun'' \<mapsto> PyFloat f, ''status'' \<mapsto> PyInt ierror])"
  by (simp add: minimize_return_def)

lemma minimize_after_direct:
  "bounds_arrays (bounds p) (nvar p) = Inr (l, u) \<Longrightarrow> call_direct direct func p l u = Inr t \<Longrightarrow>
   minimize direct func p = minimize_return t"
  by (simp add: minimize_def)

text \<open>
  C1. When the call of the routine made by \<^verbatim>\<open>minimize\<close> returns a triple with a
  negative \<^verbatim>\<open>ierror\<close>, \<^verbatim>\<open>minimize\<close> raises an exception; when \<^verbatim>\<open>ierror\<close> is not
  negative, \<^verbatim>\<open>minimize\<close> returns a result whose entry \<^verbatim>\<open>status\<close> is \<^verbatim>\<open>ierror\<close>.
\<close>

theorem minimize_status_sign:
  assumes "bounds_arrays (bounds p) (nvar p) = Inr (l, u)"
    and "call_direct direct func p l u = Inr (x, f, ierror)"
  shows "(ierror < 0 \<longrightarrow> (\<exists>e. snd (minimize direct func p) = Inl e)) \<and>
         (0 \<le> ierror \<longrightarrow>
            (\<exists>r. snd (minimize direct func p) = Inr r \<and> r ''status'' = Some (PyInt ierror)))"
proof -
  have m: "minimize direct func p = minimize_return (x, f, ierror)"
    using assms by (rule minimize_after_direct)
  show ?thesis
  proof (cases "ierror < 0")
    case True
    then obtain e where "minimize_return (x, f, ierror) = ([ierror], Inl e)"
      using minimize_return_negative by blast
    with m True show ?thesis by simp
  next
    case False
    then have "0 \<le> ierror" by simp
    with m show ?thesis by (simp add: minimize_return_nonnegative)
  qed
qed

lemma example_bounds: "bounds_arrays (bounds (defaults\<lparr>nvar := Some 1\<rparr>)) (nvar (defaults\<lparr>nvar := Some 1\<rparr>)) = Inr (Array1 [0], Array1 [1])"
  by (simp add: defaults_def bounds_arrays_def np_full_def)

lemma example_call: "call_direct (direct_returning t) func p l u = Inr t"
  by (simp add: call_direct_def direct_returning_def)

theorem minimize_status_sign_witness:
  "(\<exists>e. snd (minimize (direct_returning (Array1 [1 / 2], 0, - 1)) flagging_objective
              (defaults\<lparr>nvar := Some 1\<rparr>)) = Inl e) \<and>
   (\<exists>r. snd (minimize (direct_returning (Array1 [1 / 2], 0, 3)) flagging_objective
              (defaults\<lparr>nvar := Some 1\<rparr>)) = Inr r \<and> r ''status'' = Some (PyInt 3))"
proof -
  let ?p = "defaults\<lparr>nvar := Some 1\<rparr> :: real minimize_params"
  have b: "bounds_arrays (bounds ?p) (nvar ?p) = Inr (Array1 [0], Array1 [1])"
    by (rule example_bounds)
  have c1: "call_direct (direct_returning (Array1 [1 / 2], 0, - 1)) flagging_objective ?p
              (Array1 [0]) (Array1 [1]) = Inr (Array1 [1 / 2], 0, - 1)"
    by (rule example_call)
  have c2: "call_direct (direct_returning (Array1 [1 / 2], 0, 3)) flagging_objective ?p
              (Array1 [0]) (Array1 [1]) = Inr (Array1 [1 / 2], 0, 3)"
    by (rule example_call)
  from minimize_status_sign [OF b c1] minimize_status_sign [OF b c2]
  show ?thesis by simp
qed

subsection \<open>The keys of the result\<close>

lemma minimize_return_dom:
  "minimize_return t = (out, Inr r) \<Longrightarrow> dom r = {''x'', ''fun'', ''status''}"
  by (cases t) (auto simp: minimize_return_def split: if_splits sum.splits)

lemma minimize_Inr_return:
  "snd (minimize direct func p) = Inr r \<Longrightarrow> \<exists>t. snd (minimize_return t) = Inr r"
  by (auto simp: minimize_def split: sum.splits prod.splits)

lemma absent_attr:
  "name \<notin> set class_names \<Longrightarrow> r name = None \<Longrightarrow> attr_read r name = Inl (AttributeError name)"
  by (simp add: attr_read_def OptimizeResult_getattr_def dict_getitem_def)

lemma undocumented_names:
  "''success'' \<notin> set class_names" "''message'' \<notin> set class_names"
  "''nit'' \<notin> set class_names" "''nfev'' \<notin> set class_names"
  by (simp_all add: class_names_def class_body_def class_extras_def dict_attributes_def)

text \<open>
  C10. A result returned by \<^verbatim>\<open>minimize\<close> has exactly the keys \<^verbatim>\<open>x\<close>, \<^verbatim>\<open>fun\<close> and
  \<^verbatim>\<open>status\<close>, and reading the attribute \<^verbatim>\<open>success\<close>, \<^verbatim>\<open>message\<close>, \<^verbatim>\<open>nit\<close> or
  \<^verbatim>\<open>nfev\<close> of it raises \<^verbatim>\<open>AttributeError\<close>.
\<close>

theorem minimize_result_keys:
  assumes "snd (minimize direct func p) = Inr r"
  shows "dom r = {''x'', ''fun'', ''status''} \<and>
         attr_read r ''success'' = Inl (AttributeError ''success'') \<and>
         attr_read r ''message'' = Inl (AttributeError ''message'') \<and>
         attr_read r ''nit'' = Inl (AttributeError ''nit'') \<and>
         attr_read r ''nfev'' = Inl (AttributeError ''nfev'')"
proof -
  from assms obtain t where "snd (minimize_return t) = Inr r"
    using minimize_Inr_return by blast
  then have d: "dom r = {''x'', ''fun'', ''status''}"
    using minimize_return_dom [of t "fst (minimize_return t)" r] by (simp add: prod_eq_iff)
  then have "''success'' \<notin> dom r" "''message'' \<notin> dom r" "''nit'' \<notin> dom r" "''nfev'' \<notin> dom r"
    by simp_all
  then have "r ''success'' = None" "r ''message'' = None" "r ''nit'' = None" "r ''nfev'' = None"
    by blast+
  with d show ?thesis
    by (simp only: absent_attr undocumented_names not_False_eq_True simp_thms)
qed

theorem minimize_result_keys_witness:
  "dom [''x'' \<mapsto> PyArray (Array1 [1 / 2]), ''fun'' \<mapsto> PyFloat 0, ''status'' \<mapsto> PyInt 3]
     = {''x'', ''fun'', ''status''} \<and>
   attr_read [''x'' \<mapsto> PyArray (Array1 [1 / 2]), ''fun'' \<mapsto> PyFloat 0, ''status'' \<mapsto> PyInt 3]
     ''message'' = Inl (AttributeError ''message'')"
proof -
  have "snd (minimize (direct_returning (Array1 [1 / 2], 0, 3)) flagging_objective
               (defaults\<lparr>nvar := Some 1\<rparr>))
        = Inr [''x'' \<mapsto> PyArray (Array1 [1 / 2]), ''fun'' \<mapsto> PyFloat 0, ''status'' \<mapsto> PyInt 3]"
    by (simp add: minimize_def bounds_arrays_def np_full_def defaults_def call_direct_def
          direct_returning_def minimize_return_def)
  from minimize_result_keys [OF this] show ?thesis by simp
qed

subsection \<open>What the result carries\<close>

text \<open>
  C2, as amended. When the call of the routine returns a triple with a status that is
  not negative, the result of \<^verbatim>\<open>minimize\<close> carries the best point under \<^verbatim>\<open>x\<close>, the best
  value under \<^verbatim>\<open>fun\<close> and the status code under \<^verbatim>\<open>status\<close>, and it carries no
  evaluation count: the routine hands none back.
\<close>

theorem minimize_result_carries:
  assumes "bounds_arrays (bounds p) (nvar p) = Inr (l, u)"
    and "call_direct direct func p l u = Inr (x, f, ierror)"
    and "0 \<le> ierror"
  shows "\<exists>r. snd (minimize direct func p) = Inr r \<and>
             r ''x'' = Some (PyArray x) \<and> r ''fun'' = Some (PyFloat f) \<and>
             r ''status'' = Some (PyInt ierror) \<and> r ''nfev'' = None"
proof -
  have "minimize direct func p = minimize_return (x, f, ierror)"
    using assms(1,2) by (rule minimize_after_direct)
  with assms(3) show ?thesis
    by (simp add: minimize_return_nonnegative)
qed

theorem minimize_result_carries_witness:
  "\<exists>r. snd (minimize (direct_returning (Array1 [1 / 2], 0, 1)) flagging_objective
              (defaults\<lparr>nvar := Some 1\<rparr>)) = Inr r \<and>
       r ''x'' = Some (PyArray (Array1 [1 / 2])) \<and> r ''fun'' = Some (PyFloat 0) \<and>
       r ''status'' = Some (PyInt 1) \<and> r ''nfev'' = None"
proof -
  let ?p = "defaults\<lparr>nvar := Some 1\<rparr> :: real minimize_params"
  have b: "bounds_arrays (bounds ?p) (nvar ?p) = Inr (Array1 [0], Array1 [1])"
    by (rule example_bounds)
  have c: "call_direct (direct_returning (Array1 [1 / 2], 0, 1)) flagging_objective ?p
             (Array1 [0]) (Array1 [1]) = Inr (Array1 [1 / 2], 0, 1)"
    by (rule example_call)
  have z: "(0::int) \<le> 1" by simp
  from minimize_result_carries [OF b c z] show ?thesis .
qed

text \<open>
  The claim as first stated asks for a message and an evaluation count in the result
  as well. A run that ends on status 1 returns neither.
\<close>

theorem minimize_result_lacks_count:
  "snd (minimize (direct_returning (Array1 [1 / 2], 0, 1)) flagging_objective
          (defaults\<lparr>nvar := Some 1\<rparr>))
     = Inr [''x'' \<mapsto> PyArray (Array1 [1 / 2]), ''fun'' \<mapsto> PyFloat 0, ''status'' \<mapsto> PyInt 1] \<and>
   [''x'' \<mapsto> PyArray (Array1 [1 / 2]), ''fun'' \<mapsto> PyFloat 0, ''status'' \<mapsto> PyInt 1] ''nfev'' = None \<and>
   [''x'' \<mapsto> PyArray (Array1 [1 / 2]), ''fun'' \<mapsto> PyFloat 0, ''status'' \<mapsto> PyInt 1] ''message'' = None"
  by (simp add: minimize_def bounds_arrays_def np_full_def defaults_def call_direct_def
        direct_returning_def minimize_return_def)

subsection \<open>The error messages\<close>

text \<open>
  C3. Every status from -1 to -6 should raise a failure with the message of its own.
  The table has five elements, so status -6 (inverted bounds) raises \<^verbatim>\<open>IndexError\<close>
  from the subscript, and status -5 raises the two last messages joined into one.
\<close>

theorem minimize_code_minus_six:
  "length ERROR_MESSAGES = 5 \<and>
   minimize (direct_returning (Array1 [1], 0, - 6)) flagging_objective
     (defaults\<lparr>bounds := Some [(IntNum 1, IntNum 0)]\<rparr>) = ([- 6], Inl IndexError) \<and>
   minimize (direct_returning (Array1 [1], 0, - 5)) flagging_objective
     (defaults\<lparr>bounds := Some [(IntNum 1, IntNum 0)]\<rparr>)
     = ([- 5], Inl (Exception ''maxf is too largeu[i] < l[i] for some i''))"
  by (simp add: minimize_def bounds_arrays_def np_asarray_def result_dtype_def coerce_def
        Let_def column_def defaults_def call_direct_def direct_returning_def
        minimize_return_def tuple_getitem_def ERROR_MESSAGES_def)

subsection \<open>The objective\<close>

text \<open>
  C4. The flag of the user's function should reach the routine. An objective that
  returns the value 2 and the flag 1 is handed on as the value \<open>(2, 1)\<close> with the flag 0.
\<close>

theorem objective_wrap_flag_constant:
  "objective_wrap flagging_objective [] (Array1 [1 / 2]) [] [] [] 1 0 0 0 = ((2, 1), 0)"
  by (simp add: objective_wrap_def flagging_objective_def)

lemma objective_wrap_lambda:
  "objective_wrap func as = (\<lambda>x iidata ddata cdata n iisize idsize icsize. (func x as, 0))"
  by (intro ext) (simp add: objective_wrap_def)

lemma minimize_direct_call:
  "bounds_arrays (bounds p) (nvar p) = Inr (l, u) \<Longrightarrow>
   minimize direct func p =
     (case direct (objective_wrap func (args p)) (eps p) (maxf p) (maxT p) l u (algmethod p)
             (logfilename p) (fglobal p) (fglper p) (volper p) (sigmaper p) [] [] [] of
        Inl e \<Rightarrow> ([], Inl e) | Inr t \<Rightarrow> minimize_return t)"
  by (simp add: minimize_def call_direct_def)

text \<open>
  C8. Once the bounds are built, \<^verbatim>\<open>minimize\<close> calls the routine with an objective that,
  at every point \<open>x\<close> the routine asks for and whatever the other seven arguments are,
  evaluates the user's function as \<^verbatim>\<open>func(x, *args)\<close> with exactly the \<^verbatim>\<open>args\<close> of the
  call to \<^verbatim>\<open>minimize\<close>.
\<close>

theorem minimize_forwards_args:
  assumes "bounds_arrays (bounds p) (nvar p) = Inr (l, u)"
  shows "minimize direct func p =
     (case direct (\<lambda>x iidata ddata cdata n iisize idsize icsize. (func x (args p), 0))
             (eps p) (maxf p) (maxT p) l u (algmethod p)
             (logfilename p) (fglobal p) (fglper p) (volper p) (sigmaper p) [] [] [] of
        Inl e \<Rightarrow> ([], Inl e) | Inr t \<Rightarrow> minimize_return t)"
  using minimize_direct_call [OF assms, of direct func]
  by (simp only: objective_wrap_lambda)

theorem minimize_forwards_args_witness:
  "minimize direct_at_lower sum_of_args (defaults\<lparr>nvar := Some 1, args := [2, 3]\<rparr>)
     = ([], Inr [''x'' \<mapsto> PyArray (Array1 [0]), ''fun'' \<mapsto> PyFloat 5, ''status'' \<mapsto> PyInt 1]) \<and>
   minimize direct_at_lower sum_of_args (defaults\<lparr>nvar := Some 1\<rparr>)
     = ([], Inr [''x'' \<mapsto> PyArray (Array1 [0]), ''fun'' \<mapsto> PyFloat 0, ''status'' \<mapsto> PyInt 1])"
proof -
  let ?p = "defaults\<lparr>nvar := Some 1, args := [2, 3]\<rparr> :: real minimize_params"
  let ?q = "defaults\<lparr>nvar := Some 1\<rparr> :: real minimize_params"
  have bp: "bounds_arrays (bounds ?p) (nvar ?p) = Inr (Array1 [0], Array1 [1])"
    by (simp add: defaults_def bounds_arrays_def np_full_def)
  have bq: "bounds_arrays (bounds ?q) (nvar ?q) = Inr (Array1 [0], Array1 [1])"
    by (simp add: defaults_def bounds_arrays_def np_full_def)
  from minimize_forwards_args [OF bp, of direct_at_lower sum_of_args]
       minimize_forwards_args [OF bq, of direct_at_lower sum_of_args]
  show ?thesis
    by (simp add: direct_at_lower_def sum_of_args_def minimize_return_def defaults_def)
qed

subsection \<open>The success messages\<close>

text \<open>
  C5. The five success messages are distinct, and the fifth should name the measure
  criterion \<^verbatim>\<open>sigmaper\<close>. The five are distinct, but the fifth speaks of the volume
  and of \<^verbatim>\<open>volper\<close>, as the fourth does, and names neither the measure nor
  \<^verbatim>\<open>sigmaper\<close>.
\<close>

theorem SUCCESS_MESSAGES_fifth:
  "length SUCCESS_MESSAGES = 5 \<and> distinct SUCCESS_MESSAGES \<and>
   SUCCESS_MESSAGES ! 4
     = ''The volume of the hyperrectangle with best function value found is smaller then volper'' \<and>
   sublist ''volper'' (SUCCESS_MESSAGES ! 4) \<and>
   \<not> sublist ''sigmaper'' (SUCCESS_MESSAGES ! 4) \<and>
   \<not> sublist ''measure'' (SUCCESS_MESSAGES ! 4)"
  unfolding SUCCESS_MESSAGES_def by code_simp

subsection \<open>The defaults\<close>

text \<open>
  C6. The defaults of \<^verbatim>\<open>minimize\<close>: \<^verbatim>\<open>eps\<close> is 1e-4, \<^verbatim>\<open>maxf\<close> is 20000, \<^verbatim>\<open>maxT\<close> is
  6000, \<^verbatim>\<open>algmethod\<close> is 0 and \<^verbatim>\<open>fglobal\<close> is -1e100; a call that sets none of them
  hands these values to the routine.
\<close>

theorem defaults_values:
  "eps (defaults :: 'a minimize_params) = 1 / 10000 \<and>
   maxf (defaults :: 'a minimize_params) = 20000 \<and>
   maxT (defaults :: 'a minimize_params) = 6000 \<and>
   algmethod (defaults :: 'a minimize_params) = 0 \<and>
   fglobal (defaults :: 'a minimize_params) = - (10 ^ 100) \<and>
   call_direct direct func (defaults :: 'a minimize_params) l u
     = direct (objective_wrap func []) (1 / 10000) 20000 6000 l u 0 ''DIRresults.txt''
         (- (10 ^ 100)) (1 / 100) (- 1) (- 1) [] [] []"
  by (simp add: defaults_def call_direct_def)

subsection \<open>The bounds handed to the routine\<close>

lemma coerce_exact: "exact_float64 v \<Longrightarrow> coerce dt v = value_of v"
  by (cases v) (simp_all add: exact_float64_def coerce_def value_of_def)

lemma np_asarray_exact:
  assumes "\<forall>b \<in> set bs. exact_float64 (fst b) \<and> exact_float64 (snd b)"
  shows "np_asarray bs = map (\<lambda>b. (value_of (fst b), value_of (snd b))) bs"
  using assms by (auto simp: np_asarray_def Let_def coerce_exact)

lemma bounds_arrays_pairs:
  assumes "bs \<noteq> []" and "\<forall>b \<in> set bs. exact_float64 (fst b) \<and> exact_float64 (snd b)"
  shows "bounds_arrays (Some bs) nv
           = Inr (Array1 (map (value_of \<circ> fst) bs), Array1 (map (value_of \<circ> snd) bs))"
  using assms(1) by (simp add: bounds_arrays_def np_asarray_exact [OF assms(2)] column_def comp_def)

lemma bounds_arrays_nvar:
  "n < 2 ^ 60 \<Longrightarrow>
   bounds_arrays None (Some (int n)) = Inr (Array1 (replicate n 0), Array1 (replicate n 1))"
proof -
  assume "n < 2 ^ 60"
  then have "int n < 2 ^ 60"
    by (metis of_nat_less_iff of_nat_numeral of_nat_power)
  then show ?thesis
    by (simp add: bounds_arrays_def np_full_def)
qed

text \<open>
  C7, as amended. When \<^verbatim>\<open>bounds\<close> is a sequence of pairs that is not empty and every
  number in it is a \<^verbatim>\<open>float64\<close> value (a float, or an integer that the conversion to
  \<^verbatim>\<open>float64\<close> leaves as it is), the routine is called with the first components as
  \<^verbatim>\<open>l\<close> and the second components as \<^verbatim>\<open>u\<close>, in order; when \<^verbatim>\<open>bounds\<close> is omitted and
  \<^verbatim>\<open>nvar\<close> is a dimension \<open>n\<close> below \<open>2 ^ 60\<close>, the routine is called with \<open>n\<close> zeros as
  \<^verbatim>\<open>l\<close> and \<open>n\<close> ones as \<^verbatim>\<open>u\<close>.
\<close>

theorem minimize_bounds_passed:
  "(bs \<noteq> [] \<and> (\<forall>b \<in> set bs. exact_float64 (fst b) \<and> exact_float64 (snd b)) \<longrightarrow>
      bounds_arrays (Some bs) nv
        = Inr (Array1 (map (value_of \<circ> fst) bs), Array1 (map (value_of \<circ> snd) bs)) \<and>
      minimize direct func (p\<lparr>bounds := Some bs\<rparr>) =
        (case direct (objective_wrap func (args p)) (eps p) (maxf p) (maxT p)
                (Array1 (map (value_of \<circ> fst) bs)) (Array1 (map (value_of \<circ> snd) bs))
                (algmethod p) (logfilename p) (fglobal p) (fglper p) (volper p) (sigmaper p)
                [] [] [] of
           Inl e \<Rightarrow> ([], Inl e) | Inr t \<Rightarrow> minimize_return t)) \<and>
   (n < 2 ^ 60 \<longrightarrow>
      bounds_arrays None (Some (int n)) = Inr (Array1 (replicate n 0), Array1 (replicate n 1)) \<and>
      minimize direct func (p\<lparr>bounds := None, nvar := Some (int n)\<rparr>) =
        (case direct (objective_wrap func (args p)) (eps p) (maxf p) (maxT p)
                (Array1 (replicate n 0)) (Array1 (replicate n 1))
                (algmethod p) (logfilename p) (fglobal p) (fglper p) (volper p) (sigmaper p)
                [] [] [] of
           Inl e \<Rightarrow> ([], Inl e) | Inr t \<Rightarrow> minimize_return t))"
proof (intro conjI impI)
  assume h: "bs \<noteq> [] \<and> (\<forall>b \<in> set bs. exact_float64 (fst b) \<and> exact_float64 (snd b))"
  then show b: "bounds_arrays (Some bs) nv
        = Inr (Array1 (map (value_of \<circ> fst) bs), Array1 (map (value_of \<circ> snd) bs))"
    by (simp add: bounds_arrays_pairs)
  from h have "bounds_arrays (bounds (p\<lparr>bounds := Some bs\<rparr>)) (nvar (p\<lparr>bounds := Some bs\<rparr>))
        = Inr (Array1 (map (value_of \<circ> fst) bs), Array1 (map (value_of \<circ> snd) bs))"
    by (simp add: bounds_arrays_pairs)
  from minimize_direct_call [OF this, of direct func]
  show "minimize direct func (p\<lparr>bounds := Some bs\<rparr>) =
        (case direct (objective_wrap func (args p)) (eps p) (maxf p) (maxT p)
                (Array1 (map (value_of \<circ> fst) bs)) (Array1 (map (value_of \<circ> snd) bs))
                (algmethod p) (logfilename p) (fglobal p) (fglper p) (volper p) (sigmaper p)
                [] [] [] of
           Inl e \<Rightarrow> ([], Inl e) | Inr t \<Rightarrow> minimize_return t)"
    by simp
next
  assume n: "n < 2 ^ 60"
  then show "bounds_arrays None (Some (int n))
        = Inr (Array1 (replicate n 0), Array1 (replicate n 1))"
    by (rule bounds_arrays_nvar)
  from n have "bounds_arrays (bounds (p\<lparr>bounds := None, nvar := Some (int n)\<rparr>))
                 (nvar (p\<lparr>bounds := None, nvar := Some (int n)\<rparr>))
        = Inr (Array1 (replicate n 0), Array1 (replicate n 1))"
    by (simp add: bounds_arrays_nvar)
  from minimize_direct_call [OF this, of direct func]
  show "minimize direct func (p\<lparr>bounds := None, nvar := Some (int n)\<rparr>) =
        (case direct (objective_wrap func (args p)) (eps p) (maxf p) (maxT p)
                (Array1 (replicate n 0)) (Array1 (replicate n 1))
                (algmethod p) (logfilename p) (fglobal p) (fglper p) (volper p) (sigmaper p)
                [] [] [] of
           Inl e \<Rightarrow> ([], Inl e) | Inr t \<Rightarrow> minimize_return t)"
    by simp
qed

lemma nearest_float64_samples:
  "nearest_float64 9007199254740994 = 9007199254740994"
  "nearest_float64 9007199254740993 = 9007199254740992"
  "nearest_float64 (- 2) = - 2"
  by (code_simp, code_simp, code_simp)

theorem minimize_bounds_passed_witness:
  "bounds_arrays (Some [(FloatNum (1 / 2), IntNum 9007199254740994), (IntNum (- 2), FloatNum 5)]) None
     = Inr (Array1 [1 / 2, - 2], Array1 [9007199254740994, 5]) \<and>
   minimize direct_at_lower sum_of_args
     (defaults\<lparr>bounds := Some [(FloatNum (1 / 2), IntNum 9007199254740994),
                                (IntNum (- 2), FloatNum 5)]\<rparr>)
     = ([], Inr [''x'' \<mapsto> PyArray (Array1 [1 / 2, - 2]), ''fun'' \<mapsto> PyFloat 0,
                 ''status'' \<mapsto> PyInt 1]) \<and>
   bounds_arrays None (Some 2) = Inr (Array1 [0, 0], Array1 [1, 1]) \<and>
   minimize direct_at_lower sum_of_args (defaults\<lparr>bounds := None, nvar := Some 2\<rparr>)
     = ([], Inr [''x'' \<mapsto> PyArray (Array1 [0, 0]), ''fun'' \<mapsto> PyFloat 0,
                 ''status'' \<mapsto> PyInt 1])"
proof -
  let ?bs = "[(FloatNum (1 / 2), IntNum 9007199254740994), (IntNum (- 2), FloatNum 5)]"
  have ex: "?bs \<noteq> [] \<and> (\<forall>b \<in> set ?bs. exact_float64 (fst b) \<and> exact_float64 (snd b))"
    by (simp add: exact_float64_def nearest_float64_samples)
  have n: "(2::nat) < 2 ^ 60"
    by simp
  note h = minimize_bounds_passed [of ?bs None direct_at_lower sum_of_args defaults 2]
  note a1 = h [THEN conjunct1, THEN mp, OF ex, THEN conjunct1]
  note a2 = h [THEN conjunct1, THEN mp, OF ex, THEN conjunct2]
  note a3 = h [THEN conjunct2, THEN mp, OF n, THEN conjunct1]
  note a4 = h [THEN conjunct2, THEN mp, OF n, THEN conjunct2]
  have e: "args (defaults :: real minimize_params) = []"
    by (simp add: defaults_def)
  from a1 have b1: "bounds_arrays (Some ?bs) None
      = Inr (Array1 [1 / 2, - 2], Array1 [9007199254740994, 5])"
    by (simp add: value_of_def)
  from a2 have b2: "minimize direct_at_lower sum_of_args (defaults\<lparr>bounds := Some ?bs\<rparr>)
      = ([], Inr [''x'' \<mapsto> PyArray (Array1 [1 / 2, - 2]), ''fun'' \<mapsto> PyFloat 0,
                  ''status'' \<mapsto> PyInt 1])"
    by (simp add: e value_of_def direct_at_lower_def objective_wrap_def sum_of_args_def
          minimize_return_def)
  from a3 have b3: "bounds_arrays None (Some 2) = Inr (Array1 [0, 0], Array1 [1, 1])"
    by (simp add: numeral_2_eq_2)
  from a4 have b4: "minimize direct_at_lower sum_of_args (defaults\<lparr>bounds := None, nvar := Some 2\<rparr>)
      = ([], Inr [''x'' \<mapsto> PyArray (Array1 [0, 0]), ''fun'' \<mapsto> PyFloat 0,
                  ''status'' \<mapsto> PyInt 1])"
    by (simp add: e numeral_2_eq_2 direct_at_lower_def objective_wrap_def sum_of_args_def
          minimize_return_def)
  from b1 b2 b3 b4 show ?thesis
    by blast
qed

text \<open>
  The claim as first stated fails in three places. For the empty sequence the array
  has one axis, the subscript \<^verbatim>\<open>[:, 0]\<close> raises \<^verbatim>\<open>IndexError\<close>, and the routine is not
  called at all. In a sequence with a float, the integer \<open>2 ^ 53 + 1\<close> is rounded to
  \<open>2 ^ 53\<close> before the routine sees it. And the dimension \<open>2 ^ 60\<close> is refused by numpy.
\<close>

theorem minimize_bounds_not_passed:
  "minimize (direct_returning (Array1 [], 0, 1)) flagging_objective
     (defaults\<lparr>bounds := Some []\<rparr>) = ([], Inl IndexError) \<and>
   bounds_arrays (Some [(FloatNum (1 / 2), IntNum 9007199254740993)]) None
     = Inr (Array1 [1 / 2], Array1 [9007199254740992]) \<and>
   bounds_arrays None (Some (2 ^ 60)) = Inl ValueError"
  by (simp add: minimize_def bounds_arrays_def np_asarray_def result_dtype_def coerce_def
        Let_def column_def defaults_def np_full_def nearest_float64_samples)

subsection \<open>Attribute access on the result\<close>

lemma attr_read_entry:
  "name \<notin> set class_names \<Longrightarrow>
   attr_read r name = (case r name of None \<Rightarrow> Inl (AttributeError name) | Some v \<Rightarrow> Inr (Entry v))"
  by (simp add: attr_read_def OptimizeResult_getattr_def dict_getitem_def split: option.splits)

text \<open>
  C9, as amended. For a name that the class does not answer itself, reading \<^verbatim>\<open>r.name\<close>
  gives the entry \<^verbatim>\<open>r[name]\<close> when the name is a key and raises \<^verbatim>\<open>AttributeError\<close>
  (not \<^verbatim>\<open>KeyError\<close>) when it is not; for a name of the class, such as \<^verbatim>\<open>keys\<close>, the
  read gives the member of the class whatever the keys are. For every name, assigning
  \<^verbatim>\<open>r.name = v\<close> is the item assignment and deleting \<^verbatim>\<open>r.name\<close> is the item deletion.
\<close>

theorem attribute_access_is_item_access:
  "(name \<notin> set class_names \<longrightarrow>
      (case r name of
         Some v \<Rightarrow> attr_read r name = Inr (Entry v) \<and> dict_getitem r name = Inr v
       | None \<Rightarrow> attr_read r name = Inl (AttributeError name))) \<and>
   (name \<in> set class_names \<longrightarrow> attr_read r name = Inr (ClassMember name)) \<and>
   attr_assign r name v' = dict_setitem r name v' \<and>
   attr_delete r name = dict_delitem r name"
proof -
  have "case r name of
          Some v \<Rightarrow> attr_read r name = Inr (Entry v) \<and> dict_getitem r name = Inr v
        | None \<Rightarrow> attr_read r name = Inl (AttributeError name)" if "name \<notin> set class_names"
    using that by (simp add: attr_read_entry dict_getitem_def split: option.splits)
  moreover have "attr_read r name = Inr (ClassMember name)" if "name \<in> set class_names"
    using that by (simp add: attr_read_def)
  moreover have "attr_assign r name v' = dict_setitem r name v'"
    by (simp add: attr_assign_def OptimizeResult_setattr_def)
  moreover have "attr_delete r name = dict_delitem r name"
    by (simp add: attr_delete_def OptimizeResult_delattr_def)
  ultimately show ?thesis
    by blast
qed

lemma x_y_not_class_names: "''x'' \<notin> set class_names" "''y'' \<notin> set class_names"
  by (simp_all add: class_names_def class_body_def class_extras_def dict_attributes_def)

lemma keys_class_name: "''keys'' \<in> set class_names"
  by (simp add: class_names_def class_body_def class_extras_def dict_attributes_def)

theorem attribute_access_is_item_access_witness:
  "attr_read [''x'' \<mapsto> (1::int)] ''x'' = Inr (Entry 1) \<and>
   dict_getitem [''x'' \<mapsto> (1::int)] ''x'' = Inr 1 \<and>
   attr_read [''x'' \<mapsto> (1::int)] ''y'' = Inl (AttributeError ''y'') \<and>
   attr_read [''x'' \<mapsto> (1::int)] ''keys'' = Inr (ClassMember ''keys'') \<and>
   attr_assign [''x'' \<mapsto> (1::int)] ''y'' 2 = [''x'' \<mapsto> 1, ''y'' \<mapsto> 2] \<and>
   attr_delete [''x'' \<mapsto> (1::int)] ''x'' = Inr Map.empty \<and>
   attr_delete [''x'' \<mapsto> (1::int)] ''y'' = Inl (KeyError ''y'')"
  using attribute_access_is_item_access [of "''x''" "[''x'' \<mapsto> (1::int)]" 2]
        attribute_access_is_item_access [of "''y''" "[''x'' \<mapsto> (1::int)]" 2]
        attribute_access_is_item_access [of "''keys''" "[''x'' \<mapsto> (1::int)]" 2]
  by (simp add: x_y_not_class_names keys_class_name dict_setitem_def dict_delitem_def)

text \<open>
  The claim as first stated is about every name. With \<^verbatim>\<open>keys\<close> stored as a key, the
  item lookup gives the entry and the attribute read gives the method of the dict.
\<close>

theorem attr_read_keys_is_method:
  "dict_getitem [''keys'' \<mapsto> (1::int)] ''keys'' = Inr 1 \<and>
   attr_read [''keys'' \<mapsto> (1::int)] ''keys'' = Inr (ClassMember ''keys'') \<and>
   attr_read [''keys'' \<mapsto> (1::int)] ''keys'' \<noteq> Inr (Entry 1)"
  by (simp add: attr_read_def keys_class_name dict_getitem_def)

end
